theory Spec2Isabelle
  imports Complex_Main
begin

section \<open>Text: characters and strings\<close>

text \<open>
  A Python \<open>str\<close> is modelled as a \<open>string\<close> whose characters are the code points
  below 256. The character classes below are the ones Python's \<open>re\<close> and \<open>str\<close>
  methods use on that range: \<open>\d\<close> and \<open>[0-9]\<close> are the ten ASCII digits, \<open>\s\<close>,
  \<open>str.strip\<close> and \<open>str.split\<close> use \<open>str.isspace\<close>, \<open>\w\<close> is \<open>str.isalnum\<close> or
  an underscore, and \<open>str.lower\<close> maps one character to one character.
\<close>

definition code :: "char \<Rightarrow> nat" where
  "code c = of_char c"

definition is_digit :: "char \<Rightarrow> bool" where
  "is_digit c = (48 \<le> code c \<and> code c \<le> 57)"

definition is_space :: "char \<Rightarrow> bool" where
  "is_space c = ((9 \<le> code c \<and> code c \<le> 13) \<or> (28 \<le> code c \<and> code c \<le> 32)
                 \<or> code c = 133 \<or> code c = 160)"

definition is_word :: "char \<Rightarrow> bool" where
  "is_word c = (is_digit c \<or> (65 \<le> code c \<and> code c \<le> 90) \<or> (97 \<le> code c \<and> code c \<le> 122)
                \<or> code c = 95 \<or> code c = 170 \<or> code c = 178 \<or> code c = 179 \<or> code c = 181
                \<or> code c = 185 \<or> code c = 186 \<or> (188 \<le> code c \<and> code c \<le> 190)
                \<or> (192 \<le> code c \<and> code c \<le> 214) \<or> (216 \<le> code c \<and> code c \<le> 246)
                \<or> 248 \<le> code c)"

definition lower_char :: "char \<Rightarrow> char" where
  "lower_char c =
     (if (65 \<le> code c \<and> code c \<le> 90) \<or> (192 \<le> code c \<and> code c \<le> 214)
         \<or> (216 \<le> code c \<and> code c \<le> 222)
      then char_of (code c + 32) else c)"

definition lower :: "string \<Rightarrow> string" where
  "lower s = map lower_char s"

fun startswith :: "string \<Rightarrow> string \<Rightarrow> bool" where
  "startswith s [] = True"
| "startswith [] (k # ks) = False"
| "startswith (c # cs) (k # ks) = (c = k \<and> startswith cs ks)"

text \<open>\<open>contains k s\<close> is Python's \<open>k in s\<close> on strings.\<close>

fun contains :: "string \<Rightarrow> string \<Rightarrow> bool" where
  "contains k [] = (k = [])"
| "contains k (c # cs) = (startswith (c # cs) k \<or> contains k cs)"

definition any_in :: "string list \<Rightarrow> string \<Rightarrow> bool" where
  "any_in keywords s = list_ex (\<lambda>k. contains k s) keywords"

section \<open>Numbers\<close>

text \<open>
  A Python \<open>float\<close> that the extractors produce is either a finite value or positive
  infinity (what \<open>float(s)\<close> returns when the decimal numeral \<open>s\<close> is too large).
\<close>

datatype pyfloat = Finite rat | PInf

datatype py_error = ZeroDivisionError | OverflowError | TypeError

text \<open>
  \<open>to_double q\<close> is the IEEE 754 binary64 value nearest to the non-negative rational
  \<open>q\<close> (ties to even, 53 significant bits, least exponent -1022), or infinity
  when that value would be \<open>2^1024\<close> or more. It is what \<open>float(s)\<close> returns
  for a decimal numeral of value \<open>q\<close>, and what a float multiplication returns for an exact
  product \<open>q\<close>.
\<close>

function bitlen :: "int \<Rightarrow> int" where
  "bitlen n = (if n \<le> 0 then 0 else 1 + bitlen (n div 2))"
  by pat_completeness auto
termination
  by (relation "measure nat") auto

declare bitlen.simps [simp del]

definition pow2 :: "int \<Rightarrow> rat" where
  "pow2 k = (if 0 \<le> k then 2 ^ nat k else 1 / 2 ^ nat (- k))"

definition float_exponent :: "rat \<Rightarrow> int" where
  "float_exponent q =
     (let k = bitlen (fst (quotient_of q)) - bitlen (snd (quotient_of q))
      in if pow2 k \<le> q then k else k - 1)"

definition round_half_even :: "rat \<Rightarrow> int" where
  "round_half_even x =
     (let f = \<lfloor>x\<rfloor>; d = x - of_int f
      in if d < 1 / 2 then f else if 1 / 2 < d then f + 1 else if even f then f else f + 1)"

definition to_double :: "rat \<Rightarrow> pyfloat" where
  "to_double q =
     (if q = 0 then Finite 0
      else let e = max (float_exponent q) (- 1022);
               ulp = pow2 (e - 52);
               v = of_int (round_half_even (q / ulp)) * ulp
           in if pow2 1024 \<le> v then PInf else Finite v)"

text \<open>\<open>float * 1000\<close> and \<open>int(float)\<close>; the latter raises on infinity.\<close>

definition float_times :: "pyfloat \<Rightarrow> rat \<Rightarrow> pyfloat" where
  "float_times x k = (case x of PInf \<Rightarrow> PInf | Finite q \<Rightarrow> to_double (q * k))"

definition int_of_float :: "pyfloat \<Rightarrow> py_error + int" where
  "int_of_float x = (case x of PInf \<Rightarrow> Inl OverflowError | Finite q \<Rightarrow> Inr \<lfloor>q\<rfloor>)"

text \<open>Decimal numerals: \<open>int(s)\<close> on a digit string, \<open>float(s)\<close> on digits with an
  optional point and fraction.\<close>

definition digit_value :: "char \<Rightarrow> int" where
  "digit_value c = int (code c) - 48"

definition int_of_digits :: "string \<Rightarrow> int" where
  "int_of_digits ds = foldl (\<lambda>a c. 10 * a + digit_value c) 0 ds"

definition decimal_value :: "string \<Rightarrow> rat" where
  "decimal_value s =
     (let ip = takeWhile is_digit s; fp = drop (Suc (length ip)) s
      in of_int (int_of_digits ip) + of_int (int_of_digits fp) / 10 ^ length fp)"

definition float_of_string :: "string \<Rightarrow> pyfloat" where
  "float_of_string s = to_double (decimal_value s)"

definition remove_commas :: "string \<Rightarrow> string" where
  "remove_commas s = filter (\<lambda>c. c \<noteq> CHR '','') s"

section \<open>Term extractor\<close>

text \<open>
  \<open>re_search m s\<close> is \<open>re.search\<close>: \<open>m\<close> matches the pattern at the start of its
  argument and returns the text of group 1; the search returns the match at the
  leftmost position that has one.
\<close>

fun re_search :: "(string \<Rightarrow> 'a option) \<Rightarrow> string \<Rightarrow> 'a option" where
  "re_search m [] = m []"
| "re_search m (c # cs) = (case m (c # cs) of Some g \<Rightarrow> Some g | None \<Rightarrow> re_search m cs)"

declare re_search.simps [simp del]

text \<open>
  The pattern \<open>\$\s*([0-9][0-9,]*(?:\.\d+)?)\<close>. After the dollar sign and the white
  space a digit must follow, so the greedy \<open>\s*\<close> never gives a character back; the
  rest of the pattern cannot fail, so each greedy part keeps its longest match.
\<close>

definition is_digit_or_comma :: "char \<Rightarrow> bool" where
  "is_digit_or_comma c = (is_digit c \<or> c = CHR '','')"

definition fraction_part :: "string \<Rightarrow> string" where
  "fraction_part s =
     (case s of
        p # d # r \<Rightarrow> if p = CHR ''.'' \<and> is_digit d then p # d # takeWhile is_digit r else []
      | _ \<Rightarrow> [])"

definition price_pattern :: "string \<Rightarrow> string option" where
  "price_pattern s =
     (case s of
        [] \<Rightarrow> None
      | c # r \<Rightarrow>
          if c \<noteq> CHR ''$'' then None
          else (case dropWhile is_space r of
                  [] \<Rightarrow> None
                | d # r' \<Rightarrow>
                    if is_digit d
                    then Some (d # takeWhile is_digit_or_comma r'
                               @ fraction_part (dropWhile is_digit_or_comma r'))
                    else None))"

definition extract_price :: "string option \<Rightarrow> pyfloat option" where
  "extract_price text =
     (case text of
        None \<Rightarrow> None
      | Some t \<Rightarrow>
          if t = [] then None
          else (case re_search price_pattern t of
                  Some g \<Rightarrow> Some (float_of_string (remove_commas g))
                | None \<Rightarrow> None))"

text \<open>
  The pattern \<open>(\d+)\s*days?\<close> on the lower-cased text. Giving back a digit or a
  white-space character leaves a digit or white space where \<open>d\<close> must stand, so only
  the longest runs can match.
\<close>

definition delivery_pattern :: "string \<Rightarrow> string option" where
  "delivery_pattern s =
     (let ds = takeWhile is_digit s
      in if ds \<noteq> [] \<and> startswith (dropWhile is_space (dropWhile is_digit s)) ''day''
         then Some ds else None)"

definition extract_delivery :: "string option \<Rightarrow> int option" where
  "extract_delivery text =
     (case text of
        None \<Rightarrow> None
      | Some t \<Rightarrow>
          if t = [] then None
          else (case re_search delivery_pattern (lower t) of
                  Some g \<Rightarrow> Some (int_of_digits g)
                | None \<Rightarrow> None))"

text \<open>
  The number group \<open>(\d{1,3}(?:,\d{3})*|\d+\.?\d*)\<close> of \<open>extract_volume\<close>. In the
  first two patterns the group is followed by \<open>\s*\<close> and a letter, so a way of matching
  the group that stops before a digit, a comma that starts a further group of three
  digits, or a point cannot be continued: of each alternative only the longest match
  is a candidate, the first alternative first.
\<close>

fun comma_groups :: "string \<Rightarrow> string" where
  "comma_groups (c # d1 # d2 # d3 # r) =
     (if c = CHR '','' \<and> is_digit d1 \<and> is_digit d2 \<and> is_digit d3
      then c # d1 # d2 # d3 # comma_groups r else [])"
| "comma_groups s = []"

definition grouped_number :: "string \<Rightarrow> string" where
  "grouped_number s =
     (let ds = takeWhile is_digit (take 3 s)
      in if ds = [] then [] else ds @ comma_groups (drop (length ds) s))"

definition plain_number :: "string \<Rightarrow> string" where
  "plain_number s =
     (let ds = takeWhile is_digit s; r = dropWhile is_digit s
      in if ds = [] then []
         else (case r of
                 p # r' \<Rightarrow> if p = CHR ''.'' then ds @ p # takeWhile is_digit r' else ds
               | [] \<Rightarrow> ds))"

definition word_end :: "string \<Rightarrow> bool" where
  "word_end s = (case s of [] \<Rightarrow> True | c # _ \<Rightarrow> \<not> is_word c)"

definition thousand_suffix :: "string \<Rightarrow> bool" where
  "thousand_suffix s =
     (let r = dropWhile is_space s
      in (startswith r ''thousand'' \<and> word_end (drop 8 r))
         \<or> (startswith r ''k'' \<and> word_end (drop 1 r)))"

definition units_suffix :: "string \<Rightarrow> bool" where
  "units_suffix s =
     (let r = dropWhile is_space s
      in (startswith r ''units'' \<and> word_end (drop 5 r))
         \<or> (startswith r ''unit'' \<and> word_end (drop 4 r)))"

definition number_then :: "(string \<Rightarrow> bool) \<Rightarrow> string \<Rightarrow> string option" where
  "number_then suffix s =
     (let g = grouped_number s; p = plain_number s
      in if g \<noteq> [] \<and> suffix (drop (length g) s) then Some g
         else if p \<noteq> [] \<and> suffix (drop (length p) s) then Some p
         else None)"

text \<open>The fallback pattern \<open>(\d{1,3}(?:,\d{3})*|\d+)\<close>: the first alternative matches
  wherever a digit stands.\<close>

definition bare_number :: "string \<Rightarrow> string option" where
  "bare_number s = (let g = grouped_number s in if g \<noteq> [] then Some g else None)"

definition volume_keywords :: "string list" where
  "volume_keywords = [''units'', ''order'', ''volume'', ''quantity'']"

definition extract_volume :: "string option \<Rightarrow> py_error + int option" where
  "extract_volume text =
     (case text of
        None \<Rightarrow> Inr None
      | Some t \<Rightarrow>
          if t = [] then Inr None
          else let txt = lower t in
            (case re_search (number_then thousand_suffix) txt of
               Some g \<Rightarrow> map_sum id Some (int_of_float (float_times (float_of_string (remove_commas g)) 1000))
             | None \<Rightarrow>
            (case re_search (number_then units_suffix) txt of
               Some g \<Rightarrow> map_sum id Some (int_of_float (float_of_string (remove_commas g)))
             | None \<Rightarrow>
            if any_in volume_keywords txt
            then (case re_search bare_number txt of
                    Some g \<Rightarrow> map_sum id Some (int_of_float (float_of_string (remove_commas g)))
                  | None \<Rightarrow> Inr None)
            else Inr None)))"

section \<open>Transcript\<close>

text \<open>
  A transcript entry is the dict \<open>{"role": ..., "content": ...}\<close>. The field
  \<open>cached_extracts\<close> stands for the key \<open>_cached_extracts\<close> that
  \<open>_find_nearest_proposal_before\<close> of \<open>src/app.py\<close> stores in an entry: \<open>None\<close> when
  the entry has no such key.
\<close>

record extracts =
  price :: "pyfloat option"
  delivery :: "int option"
  volume :: "int option"

record message =
  role :: string
  content :: string
  cached_extracts :: "extracts option"

definition msg :: "string \<Rightarrow> string \<Rightarrow> message" where
  "msg r c = \<lparr>role = r, content = c, cached_extracts = None\<rparr>"

definition user_messages :: "message list \<Rightarrow> string list" where
  "user_messages history = map content (filter (\<lambda>m. role m = ''user'') history)"

section \<open>Agreement detector\<close>

definition agreement_keywords :: "string list" where
  "agreement_keywords =
     [''agree'', ''agreed'', ''deal'', ''accept'', ''acceptable'', ''works for me'',
      ''sounds good'', ''confirmed'', ''yes'', ''okay that works'', ''perfect'',
      ''deal'', ''let's do it'', ''that works'', ''i accept'']"

definition no_terms :: extracts where
  "no_terms = \<lparr>price = None, delivery = None, volume = None\<rparr>"

text \<open>The three extractions from one message content, in the order the code calls
  them; only \<open>extract_volume\<close> can raise.\<close>

definition extract_terms :: "string \<Rightarrow> py_error + extracts" where
  "extract_terms c =
     (case extract_volume (Some c) of
        Inl e \<Rightarrow> Inl e
      | Inr v \<Rightarrow> Inr \<lparr>price = extract_price (Some c), delivery = extract_delivery (Some c),
                      volume = v\<rparr>)"

text \<open>\<open>sum(1 for x in (price, delivery, volume) if x is not None)\<close>.\<close>

definition count_present :: "extracts \<Rightarrow> nat" where
  "count_present t =
     (if price t \<noteq> None then 1 else 0) + (if delivery t \<noteq> None then 1 else 0)
     + (if volume t \<noteq> None then 1 else 0)"

text \<open>\<open>[k for k, v in agreed_terms.items() if v is None]\<close>, in the dict's order.\<close>

definition missing_terms :: "extracts \<Rightarrow> string list" where
  "missing_terms t =
     (if price t = None then [''price''] else []) @ (if delivery t = None then [''delivery''] else [])
     @ (if volume t = None then [''volume''] else [])"

type_synonym agreement = "bool \<times> string list \<times> extracts"

definition finish :: "extracts \<Rightarrow> agreement" where
  "finish t = (length (missing_terms t) = 0, missing_terms t, t)"

definition accepts :: "message \<Rightarrow> bool" where
  "accepts m = (role m = ''user'' \<and> any_in agreement_keywords (lower (content m)))"

subsection \<open>\<open>validate_agreement\<close> of \<open>backend/app/services/agreement.py\<close>\<close>

definition resolve :: "message \<Rightarrow> message \<Rightarrow> py_error + agreement" where
  "resolve prev_msg current_msg =
     (case extract_terms (content current_msg) of
        Inl e \<Rightarrow> Inl e
      | Inr u \<Rightarrow>
          if count_present u \<ge> 2 then Inr (finish u)
          else if role prev_msg = ''assistant''
          then (case extract_terms (content prev_msg) of
                  Inl e \<Rightarrow> Inl e
                | Inr p \<Rightarrow> if count_present p \<ge> 2 then Inr (finish p) else Inr (finish no_terms))
          else Inr (finish no_terms))"

text \<open>The loop \<open>for i in range(len(history) - 1, 0, -1)\<close>: \<open>scan history i\<close> runs it
  from index \<open>i\<close> down to index 1.\<close>

fun scan :: "message list \<Rightarrow> nat \<Rightarrow> py_error + agreement" where
  "scan history 0 = Inr (False, [''price'', ''delivery'', ''volume''], no_terms)"
| "scan history (Suc j) =
     (if accepts (history ! Suc j) then resolve (history ! j) (history ! Suc j)
      else scan history j)"

definition validate_agreement :: "message list \<Rightarrow> py_error + agreement" where
  "validate_agreement conversation_history = scan conversation_history (length conversation_history - 1)"

subsection \<open>\<open>validate_agreement\<close> of \<open>src/app.py\<close>\<close>

text \<open>
  \<open>_find_nearest_proposal_before\<close> stores its extraction in the entry it examines, so the
  functions of \<open>src/app.py\<close> return the transcript as they leave it, next to their
  result. \<open>hasattr(msg, '_cached_extracts')\<close> asks a dict for an attribute, which it
  never has, so the extraction is computed and stored at every visit.
  \<open>find_from history j\<close> runs the loop from index \<open>j - 1\<close> down to 0.
\<close>

fun find_from :: "message list \<Rightarrow> nat \<Rightarrow> message list \<times> (py_error + (extracts \<times> nat) option)" where
  "find_from history 0 = (history, Inr None)"
| "find_from history (Suc j) =
     (if role (history ! j) \<noteq> ''assistant'' then find_from history j
      else (case extract_terms (content (history ! j)) of
              Inl e \<Rightarrow> (history, Inl e)
            | Inr ex \<Rightarrow>
                let history' = history[j := (history ! j)\<lparr>cached_extracts := Some ex\<rparr>]
                in if count_present ex \<ge> 2 then (history', Inr (Some (ex, j)))
                   else find_from history' j))"

definition find_nearest_proposal_before ::
    "message list \<Rightarrow> nat \<Rightarrow> message list \<times> (py_error + (extracts \<times> nat) option)" where
  "find_nearest_proposal_before history idx = find_from history idx"

definition resolve_app :: "message list \<Rightarrow> nat \<Rightarrow> message list \<times> (py_error + agreement)" where
  "resolve_app history i =
     (case extract_terms (content (history ! i)) of
        Inl e \<Rightarrow> (history, Inl e)
      | Inr u \<Rightarrow>
          if count_present u \<ge> 2 then (history, Inr (finish u))
          else (case (if role (history ! (i - 1)) = ''assistant''
                      then (case extract_terms (content (history ! (i - 1))) of
                              Inl e \<Rightarrow> Inl e
                            | Inr p \<Rightarrow> if count_present p \<ge> 2 then Inr p else Inr no_terms)
                      else Inr no_terms) of
                  Inl e \<Rightarrow> (history, Inl e)
                | Inr t \<Rightarrow>
                    if price t = None \<and> delivery t = None \<and> volume t = None
                    then (case find_nearest_proposal_before history i of
                            (history', Inl e) \<Rightarrow> (history', Inl e)
                          | (history', Inr None) \<Rightarrow> (history', Inr (finish t))
                          | (history', Inr (Some (ex, j))) \<Rightarrow> (history', Inr (finish ex)))
                    else (history, Inr (finish t))))"

fun scan_app :: "message list \<Rightarrow> nat \<Rightarrow> message list \<times> (py_error + agreement)" where
  "scan_app history 0 = (history, Inr (False, [''price'', ''delivery'', ''volume''], no_terms))"
| "scan_app history (Suc j) =
     (if accepts (history ! Suc j) then resolve_app history (Suc j)
      else scan_app history j)"

definition validate_agreement_app :: "message list \<Rightarrow> message list \<times> (py_error + agreement)" where
  "validate_agreement_app conversation_history =
     scan_app conversation_history (length conversation_history - 1)"

section \<open>Evaluator: trade-off strategy\<close>

definition trade_off_keywords :: "string list" where
  "trade_off_keywords =
     [''if you'', ''in exchange'', ''trade'', ''volume'', ''order more'',
      ''larger order'', ''bulk'', ''quantity'', ''conditional'', ''deal'',
      ''discount'', ''lower price if'', ''faster delivery if'']"

definition trade_off_count :: "message list \<Rightarrow> nat" where
  "trade_off_count history =
     length (filter (\<lambda>message. any_in trade_off_keywords (lower message)) (user_messages history))"

definition total_rounds :: "message list \<Rightarrow> nat" where
  "total_rounds history = length (user_messages history)"

text \<open>
  \<open>_score_trade_off_strategy\<close>. The comparison \<open>trade_off_count <= total_rounds * 0.5\<close>
  is between an integer and half an integer, which Python decides exactly.
\<close>

definition score_trade_off_strategy :: "message list \<Rightarrow> rat" where
  "score_trade_off_strategy history =
     (let n = trade_off_count history in
      if n = 0 then 30
      else if n = 1 then 50
      else if n \<ge> 2 \<and> of_nat n \<le> (of_nat (total_rounds history) :: rat) * (1 / 2) then 75
      else 90)"

definition c5_history :: "message list" where
  "c5_history =
     [msg ''assistant'' ''$60'',
      msg ''user'' ''if you'',
      msg ''user'' ''If You'',
      msg ''user'' ''trade'',
      msg ''user'' ''no'',
      msg ''user'' ''ok'']"

section \<open>The number model\<close>

lemma pow2_powi: "pow2 k = 2 powi k"
  by (simp add: pow2_def power_int_def power_inverse inverse_eq_divide power_one_over)

lemma pow2_pos: "0 < pow2 k"
  by (simp add: pow2_powi)

lemma pow2_add: "pow2 (a + b) = pow2 a * pow2 b"
  by (simp add: pow2_powi power_int_add)

lemma pow2_mono: "a \<le> b \<Longrightarrow> pow2 a \<le> pow2 b"
  by (simp add: pow2_powi power_int_increasing)

lemma pow2_nat: "0 \<le> k \<Longrightarrow> pow2 k = of_int (2 ^ nat k)"
  by (simp add: pow2_def)

lemma bitlen_bounds: "0 < n \<Longrightarrow> 1 \<le> bitlen n \<and> 2 ^ nat (bitlen n - 1) \<le> n \<and> n < 2 ^ nat (bitlen n)"
proof (induction n rule: bitlen.induct)
  case (1 n)
  show ?case
  proof (cases "n = 1")
    case True
    then show ?thesis by (simp add: bitlen.simps)
  next
    case False
    with "1.prems" have h: "0 < n div 2" by simp
    from "1.prems" have bl: "bitlen n = 1 + bitlen (n div 2)"
      by (subst bitlen.simps) simp
    from "1.IH" "1.prems" h
    have ih: "1 \<le> bitlen (n div 2)" "2 ^ nat (bitlen (n div 2) - 1) \<le> n div 2"
      "n div 2 < 2 ^ nat (bitlen (n div 2))"
      by simp_all
    have e1: "nat (bitlen n - 1) = Suc (nat (bitlen (n div 2) - 1))"
      using ih(1) bl by simp
    have e2: "nat (bitlen n) = Suc (nat (bitlen (n div 2)))"
      using ih(1) bl by simp
    have "(2::int) * 2 ^ nat (bitlen (n div 2) - 1) \<le> n" using ih(2) by linarith
    then have a: "2 ^ nat (bitlen n - 1) \<le> n" unfolding e1 by simp
    have "n < 2 * 2 ^ nat (bitlen (n div 2))" using ih(3) by linarith
    then have b: "n < 2 ^ nat (bitlen n)" unfolding e2 by simp
    have "1 \<le> bitlen n" using bl ih(1) by linarith
    with a b show ?thesis by blast
  qed
qed


lemma float_exponent_bounds:
  assumes "0 < q"
  shows "pow2 (float_exponent q) \<le> q \<and> q < pow2 (float_exponent q + 1)"
proof -
  obtain a b where ab: "quotient_of q = (a, b)" by (cases "quotient_of q")
  then have b: "0 < b" using quotient_of_denom_pos by blast
  have q: "q = of_int a / of_int b" using ab by (rule quotient_of_div)
  have a: "0 < a" using assms b q by (simp add: zero_less_divide_iff)
  define la where "la = bitlen a"
  define lb where "lb = bitlen b"
  from bitlen_bounds [OF a] have A: "1 \<le> la" "2 ^ nat (la - 1) \<le> a" "a < 2 ^ nat la"
    by (simp_all add: la_def)
  from bitlen_bounds [OF b] have B: "1 \<le> lb" "2 ^ nat (lb - 1) \<le> b" "b < 2 ^ nat lb"
    by (simp_all add: lb_def)
  have ra: "pow2 (la - 1) \<le> of_int a" "of_int a < pow2 la"
    using A by (simp_all add: pow2_nat flip: of_int_le_iff of_int_less_iff)
  have rb: "pow2 (lb - 1) \<le> of_int b" "of_int b < pow2 lb"
    using B by (simp_all add: pow2_nat flip: of_int_le_iff of_int_less_iff)
  have bpos: "(0::rat) < of_int b" using b by simp
  have lo: "pow2 (la - lb - 1) < q"
  proof -
    have "pow2 (la - lb - 1) * of_int b < pow2 (la - lb - 1) * pow2 lb"
      using rb(2) pow2_pos by simp
    also have "\<dots> = pow2 (la - 1)" by (simp flip: pow2_add)
    also have "\<dots> \<le> of_int a" by (rule ra(1))
    finally show ?thesis using bpos by (simp add: q pos_less_divide_eq)
  qed
  have hi: "q < pow2 (la - lb + 1)"
  proof -
    have "of_int a < pow2 la" by (rule ra(2))
    also have "\<dots> = pow2 (la - lb + 1) * pow2 (lb - 1)" by (simp flip: pow2_add)
    also have "\<dots> \<le> pow2 (la - lb + 1) * of_int b"
      using rb(1) pow2_pos by simp
    finally show ?thesis using bpos by (simp add: q pos_divide_less_eq)
  qed
  have fe: "float_exponent q = (if pow2 (la - lb) \<le> q then la - lb else la - lb - 1)"
    by (simp add: float_exponent_def ab la_def lb_def)
  show ?thesis
  proof (cases "pow2 (la - lb) \<le> q")
    case True
    then show ?thesis using hi by (simp add: fe)
  next
    case False
    then show ?thesis using lo by (simp add: fe)
  qed
qed


lemma pow2_less_cancel: "pow2 a < pow2 b \<Longrightarrow> a < b"
  using pow2_mono [of b a] by (cases "a < b") auto

lemma round_half_even_of_int: "round_half_even (of_int m) = m"
  by (simp add: round_half_even_def)

lemma round_half_even_ge_floor: "\<lfloor>x\<rfloor> \<le> round_half_even x"
  by (simp add: round_half_even_def Let_def)

lemma to_double_overflow:
  assumes "pow2 1024 \<le> q"
  shows "to_double q = PInf"
proof -
  have qpos: "0 < q" using pow2_pos [of 1024] assms by linarith
  define e where "e = float_exponent q"
  have eb: "pow2 e \<le> q" "q < pow2 (e + 1)"
    using float_exponent_bounds [OF qpos] by (simp_all add: e_def)
  have "pow2 1024 < pow2 (e + 1)" using assms eb(2) by linarith
  then have e: "1024 \<le> e" using pow2_less_cancel [of 1024 "e + 1"] by simp
  define ulp where "ulp = pow2 (e - 52)"
  have ulp: "0 < ulp" by (simp add: ulp_def pow2_pos)
  have p52: "pow2 52 = of_int (2 ^ 52)" by (simp add: pow2_def)
  have pe: "pow2 e = pow2 52 * ulp" by (simp add: ulp_def flip: pow2_add)
  then have "pow2 52 * ulp \<le> q" using eb(1) by simp
  then have "pow2 52 \<le> q / ulp" using ulp by (simp add: pos_le_divide_eq)
  then have "(of_int (2 ^ 52) :: rat) \<le> q / ulp" by (simp only: p52)
  then have "(2 ^ 52 :: int) \<le> \<lfloor>q / ulp\<rfloor>" by (simp only: le_floor_iff)
  then have m: "(2 ^ 52 :: int) \<le> round_half_even (q / ulp)"
    using round_half_even_ge_floor [of "q / ulp"] by linarith
  have "pow2 e = of_int (2 ^ 52) * ulp" using pe by (simp only: p52)
  also have "\<dots> \<le> of_int (round_half_even (q / ulp)) * ulp"
    using m ulp by (simp only: mult_le_cancel_right_pos of_int_le_iff)
  finally have "pow2 e \<le> of_int (round_half_even (q / ulp)) * ulp" .
  moreover have "pow2 1024 \<le> pow2 e" using e by (rule pow2_mono)
  ultimately have v: "pow2 1024 \<le> of_int (round_half_even (q / ulp)) * ulp" by linarith
  have emax: "max e (- 1022) = e" using e by simp
  show ?thesis using qpos v
    by (simp add: to_double_def Let_def emax flip: e_def ulp_def)
qed

lemma to_double_of_int:
  assumes "0 \<le> n" "n < 2 ^ 53"
  shows "to_double (of_int n) = Finite (of_int n)"
proof (cases "n = 0")
  case True
  then show ?thesis by (simp add: to_double_def)
next
  case False
  define q :: rat where "q = of_int n"
  have qpos: "0 < q" using assms False by (simp add: q_def)
  have q1: "pow2 0 \<le> q" using assms False by (simp add: q_def pow2_def)
  have q53: "q < pow2 53"
  proof -
    have "(of_int n :: rat) < of_int (2 ^ 53)" using assms(2) by (simp only: of_int_less_iff)
    then show ?thesis by (simp add: q_def pow2_def)
  qed
  define e where "e = float_exponent q"
  have eb: "pow2 e \<le> q" "q < pow2 (e + 1)"
    using float_exponent_bounds [OF qpos] by (simp_all add: e_def)
  have "pow2 0 < pow2 (e + 1)" using q1 eb(2) by linarith
  then have e0: "0 \<le> e" using pow2_less_cancel [of 0 "e + 1"] by simp
  have "pow2 e < pow2 53" using q53 eb(1) by linarith
  then have e52: "e \<le> 52" using pow2_less_cancel [of e 53] by simp
  define ulp where "ulp = pow2 (e - 52)"
  have ulp: "0 < ulp" by (simp add: ulp_def pow2_pos)
  have "pow2 (52 - e) * ulp = 1" by (simp add: ulp_def pow2_def [of 0] flip: pow2_add)
  then have inv: "1 / ulp = pow2 (52 - e)" using ulp by (simp add: field_simps)
  have "q / ulp = q * (1 / ulp)" by simp
  also have "\<dots> = of_int (n * 2 ^ nat (52 - e))" using e52 by (simp add: inv q_def pow2_def)
  finally have "round_half_even (q / ulp) = n * 2 ^ nat (52 - e)"
    by (simp only: round_half_even_of_int)
  then have "of_int (round_half_even (q / ulp)) * ulp = q * (pow2 (52 - e) * ulp)"
    using e52 by (simp add: q_def pow2_def)
  then have v: "of_int (round_half_even (q / ulp)) * ulp = q"
    using \<open>pow2 (52 - e) * ulp = 1\<close> by simp
  have "pow2 53 \<le> pow2 1024" by (rule pow2_mono) simp
  then have nov: "\<not> pow2 1024 \<le> q" using q53 by linarith
  have emax: "max e (- 1022) = e" using e0 by simp
  have "to_double q = Finite q" using qpos nov
    by (simp add: to_double_def Let_def emax v flip: e_def ulp_def)
  then show ?thesis by (simp add: q_def)
qed

section \<open>Claims\<close>

subsection \<open>Claim C5\<close>

lemma trade_off_count_le_rounds: "trade_off_count history \<le> total_rounds history"
  by (simp add: trade_off_count_def total_rounds_def)

lemma c5_history_counts:
  "total_rounds c5_history = 5" "trade_off_count c5_history = 3"
  by code_simp+

text \<open>
  C5 (as stated, refuted): with five buyer messages of which three carry a trade-off
  phrase, the count 3 lies in \<open>2..\<lceil>5 * 0.5\<rceil>\<close>, where the claim promises 75; the code
  returns 90.
\<close>

theorem C5_counterexample:
  "total_rounds c5_history = 5 \<and> trade_off_count c5_history = 3
   \<and> (2::int) \<le> 3 \<and> (3::int) \<le> \<lceil>(5::rat) * (1 / 2)\<rceil>
   \<and> score_trade_off_strategy c5_history = 90
   \<and> score_trade_off_strategy c5_history \<noteq> 75"
  by (simp add: score_trade_off_strategy_def c5_history_counts)

text \<open>
  C5 (amended): the score is 30 when the count is 0, 50 when it is 1, 75 for every
  count from 2 up to \<open>\<lfloor>rounds / 2\<rfloor>\<close> (that is, \<open>2 * count \<le> rounds\<close>), and 90 for every
  larger count.
\<close>

theorem C5_trade_off_score:
  "score_trade_off_strategy history =
     (if trade_off_count history = 0 then 30
      else if trade_off_count history = 1 then 50
      else if 2 * trade_off_count history \<le> total_rounds history then 75
      else 90)"
proof -
  have "(of_nat n \<le> (of_nat r :: rat) * (1 / 2)) = (2 * n \<le> r)" for n r :: nat
  proof -
    have "(of_nat n \<le> (of_nat r :: rat) * (1 / 2)) = ((of_nat (2 * n) :: rat) \<le> of_nat r)"
      by (simp add: mult.commute)
    then show ?thesis
      by (simp only: of_nat_le_iff)
  qed
  then show ?thesis
    by (auto simp: score_trade_off_strategy_def Let_def)
qed

theorem C5_trade_off_score_witness:
  "score_trade_off_strategy c5_history = 90 \<and> \<not> 2 * trade_off_count c5_history \<le> total_rounds c5_history"
  using C5_trade_off_score [of c5_history]
  by (simp add: c5_history_counts)

end
